theory Spec2Isabelle
  imports Complex_Main
begin

section \<open>External photoevaporation setup for a disk simulation\<close>

text \<open>
  The module \<^verbatim>\<open>setup_ext_pe.py\<close> wires external photoevaporation into a simulation
  object of the host framework: it adds groups and fields, assigns updaters and one
  differentiator, and appends one instruction to the integrator.

  Conventions of the embedding:
  \<^item> a numpy array of floats is a list of reals (one axis) or a list of rows (two axes),
    so every entry is finite. Negation, the sum of an entry with its negation and the
    zero arrays are exact in float64 and are the same here. Where a float64 operation
    rounds or overflows (the product and the sums of \<^verbatim>\<open>M_lostdust\<close>, the division
    and the products that prepare the arguments of the resampling), the value here is
    the exact real one and the code's is the rounded one. Such a value appears below
    only as an argument that is handed on or as the value that is stored in a field;
    no property rests on what it is;
  \<^item> the simulation object is a record; what the module adds to it later is an
    \<open>option\<close> component, \<open>None\<close> until added;
  \<^item> a function that mutates the simulation object returns the new record; a raise is
    an \<open>Inl\<close> result, and what the function had already written before it raised is
    not kept;
  \<^item> a callable stored in the object (an updater, a differentiator) is stored by name,
    a value of type \<open>callable\<close>;
  \<^item> the module \<^verbatim>\<open>functions_ext_pe\<close>, the constant \<^verbatim>\<open>dustpy.constants.M_sun\<close>
    and the host's \<^verbatim>\<open>sim.update()\<close> are not part of the sources: they are parameters;
  \<^item> the host accepts a list of names as the update order of a group only if every
    name is an attribute of that group, and raises \<^verbatim>\<open>RuntimeError\<close> otherwise.
\<close>

subsection \<open>Errors, callables, fields\<close>

datatype error =
    AttributeError string
  | IndexError
  | ValueError
  | TypeError
  | RuntimeError string
  | ExternalError string

datatype callable =
    Fn_LimitInRadius
  | Fn_TruncationRadius
  | Fn_MassLoss_FRIED
  | Fn_dSigma_lostdust
  | Fn_M_lostdust

text \<open>
  A field of the host framework: its value, the optional updater and differentiator,
  the description and the two flags that \<^verbatim>\<open>addfield\<close> takes.
\<close>

record 'a field =
  val :: 'a
  updater :: "callable option"
  differentiator :: "callable option"
  description :: string
  constant_flag :: bool
  save_flag :: bool

text \<open>
  \<^verbatim>\<open>group.addfield(name, value, description=..., constant=False, save=True)\<close>: a fresh
  field with no updater and no differentiator.
\<close>

definition addfield :: "'a \<Rightarrow> string \<Rightarrow> bool \<Rightarrow> bool \<Rightarrow> 'a field" where
  "addfield v d c s =
     \<lparr>val = v, updater = None, differentiator = None, description = d,
      constant_flag = c, save_flag = s\<rparr>"

subsection \<open>numpy operations used by the module\<close>

text \<open>\<^verbatim>\<open>np.zeros_like\<close> on one and on two axes.\<close>

definition zeros_like :: "real list \<Rightarrow> real list" where
  "zeros_like a = replicate (length a) 0"

definition zeros_like2 :: "real list list \<Rightarrow> real list list" where
  "zeros_like2 a = map zeros_like a"

text \<open>
  The elementwise product of two one-axis arrays. numpy broadcasts an array of length
  one against the other operand and raises \<^verbatim>\<open>ValueError\<close> on any other mismatch.
\<close>

definition np_mul :: "real list \<Rightarrow> real list \<Rightarrow> error + real list" where
  "np_mul a b =
     (if length a = length b then Inr (map2 (*) a b)
      else if length a = 1 then Inr (map (\<lambda>y. hd a * y) b)
      else if length b = 1 then Inr (map (\<lambda>x. x * hd b) a)
      else Inl ValueError)"

text \<open>
  \<^verbatim>\<open>np.linspace(start, stop, num)\<close>: \<open>num\<close> points, the step \<open>(stop - start) / (num - 1)\<close>;
  \<^verbatim>\<open>np.logspace(start, stop, num)\<close> is ten to the power of each of these points.
\<close>

definition linspace :: "real \<Rightarrow> real \<Rightarrow> nat \<Rightarrow> real list" where
  "linspace start stop num =
     map (\<lambda>i. start + real i * ((stop - start) / real (num - 1))) [0..<num]"

definition logspace :: "real \<Rightarrow> real \<Rightarrow> nat \<Rightarrow> real list" where
  "logspace start stop num = map (\<lambda>e. 10 powr e) (linspace start stop num)"

subsection \<open>The simulation object\<close>

type_synonym interpolator = "real \<Rightarrow> real \<Rightarrow> real"

record Table_group =
  Table_description :: string
  Table_radii :: "real list field"
  Table_Sigma :: "real list field"
  Table_MassLoss :: "real list list field"

text \<open>
  The group \<^verbatim>\<open>sim.EPE.FRIED\<close>. \<^verbatim>\<open>param_ext_pe_FRIED\<close> creates it with the field
  \<^verbatim>\<open>UV_Flux\<close>; everything else is added by \<^verbatim>\<open>setup_ext_pe_FRIED\<close>. The attribute
  \<^verbatim>\<open>_Interpolator\<close> is the component \<open>Interpolator\<close>. A group's \<^verbatim>\<open>updater\<close> is
  the list of the names it updates, in order; the empty list is a group with no updater.
\<close>

record FRIED_group =
  FRIED_description :: string
  UV_Flux :: "real field"
  Table :: "Table_group option"
  Interpolator :: "interpolator option"
  rTrunc :: "real field option"
  rLim_in :: "real field option"
  MassLoss :: "real list field option"
  FRIED_updater :: "string list"

record EPE_group =
  EPE_description :: string
  FRIED :: FRIED_group

record lostdust_group =
  lostdust_description :: string
  lostdust_Sigma :: "real list list field"
  lostdust_M :: "real field"
  lostdust_updater :: "string list"

text \<open>
  An instruction of the integrator: the scheme, the field it advances (by its path in
  the object) and a description.
\<close>

datatype scheme = expl_1_euler | host_scheme string

record Instruction =
  inst_scheme :: scheme
  inst_Y :: "string list"
  inst_description :: string

text \<open>
  The simulation object, with the host's components that the module reads or writes:
  \<^verbatim>\<open>sim.star.M\<close>, \<^verbatim>\<open>sim.grid.r\<close>, \<^verbatim>\<open>sim.grid.A\<close>, \<^verbatim>\<open>sim.gas.Sigma\<close>,
  \<^verbatim>\<open>sim.gas.SigmaFloor\<close>, \<^verbatim>\<open>sim.dust.Sigma\<close>, \<^verbatim>\<open>sim.dust.S.ext\<close>,
  \<^verbatim>\<open>sim.updater\<close> and \<^verbatim>\<open>sim.integrator.instructions\<close>; and the components the
  module adds: \<^verbatim>\<open>sim.gas.S.EPE\<close>, \<^verbatim>\<open>sim.dust.S.EPE\<close>, \<^verbatim>\<open>sim.EPE\<close> and
  \<^verbatim>\<open>sim.lostdust\<close>. The component \<open>other_attributes\<close> lists the names of the further
  attributes of the object itself: the host's other ones and those the caller has
  added.
\<close>

record Simulation =
  star_M :: real
  grid_r :: "real list"
  grid_A :: "real list"
  gas_Sigma :: "real list"
  gas_SigmaFloor :: real
  gas_S_EPE :: "real list field option"
  dust_Sigma :: "real list list"
  dust_S_ext :: "real list list"
  dust_S_EPE :: "real list list field option"
  EPE :: "EPE_group option"
  lostdust :: "lostdust_group option"
  sim_updater :: "string list"
  integrator_instructions :: "Instruction list"
  other_attributes :: "string list"

text \<open>
  Whether the object itself has an attribute of a given name: the host's groups
  \<^verbatim>\<open>star\<close>, \<^verbatim>\<open>grid\<close>, \<^verbatim>\<open>gas\<close> and \<^verbatim>\<open>dust\<close> always, \<^verbatim>\<open>EPE\<close> and \<^verbatim>\<open>lostdust\<close>
  once the module has added them, and the further ones. The group \<^verbatim>\<open>FRIED\<close> of the
  module is an attribute of \<^verbatim>\<open>sim.EPE\<close>, not of the object itself.
\<close>

definition has_attribute :: "Simulation \<Rightarrow> string \<Rightarrow> bool" where
  "has_attribute sim n \<longleftrightarrow>
     n \<in> set [''star'', ''grid'', ''gas'', ''dust'']
     \<or> (n = ''EPE'' \<and> EPE sim \<noteq> None)
     \<or> (n = ''lostdust'' \<and> lostdust sim \<noteq> None)
     \<or> n \<in> set (other_attributes sim)"

subsection \<open>The lost-dust differentiator and mass updater\<close>

text \<open>
  \<^verbatim>\<open>def dSigma_lostdust(sim, x, Y): return -sim.dust.S.ext\<close>
\<close>

definition dSigma_lostdust :: "Simulation \<Rightarrow> 'x \<Rightarrow> 'y \<Rightarrow> real list list" where
  "dSigma_lostdust sim x Y = map (map uminus) (dust_S_ext sim)"

text \<open>
  \<^verbatim>\<open>def M_lostdust(sim): return (sim.grid.A * sim.lostdust.Sigma.sum(-1)).sum()\<close>

  The sum over the last axis is the sum of each row. Reading \<^verbatim>\<open>sim.lostdust\<close> before
  \<^verbatim>\<open>setup_lostdust\<close> has added it raises \<^verbatim>\<open>AttributeError\<close>. The product and the
  two sums are float64 operations in the code and exact operations here: the value
  below is the code's value only where none of them rounds or overflows. It serves as
  the value that the host stores in \<^verbatim>\<open>lostdust.M\<close>.
\<close>

definition M_lostdust :: "Simulation \<Rightarrow> error + real" where
  "M_lostdust sim =
     (case lostdust sim of
        None \<Rightarrow> Inl (AttributeError ''lostdust'')
      | Some ld \<Rightarrow>
          (case np_mul (grid_A sim) (map sum_list (val (lostdust_Sigma ld))) of
             Inl e \<Rightarrow> Inl e
           | Inr p \<Rightarrow> Inr (sum_list p)))"


text \<open>
  The elementwise sum of two arrays of two axes, as in \<^verbatim>\<open>a + b\<close> on arrays of one
  shape.
\<close>

definition np_add2 :: "real list list \<Rightarrow> real list list \<Rightarrow> real list list" where
  "np_add2 a b = map2 (map2 (+)) a b"

subsection \<open>The functions imported from \<^verbatim>\<open>functions_ext_pe\<close>\<close>

text \<open>
  Modelled from the spec: the module \<^verbatim>\<open>functions_ext_pe\<close> is not among the sources.
  By the spec, \<^verbatim>\<open>get_MassLoss_ResampleGrid(fried_dir, fried_filenames, Mstar_target,
  UV_target, grid_radii, grid_Sigma, grid_Sigma1AU)\<close> reads the grid files and returns the
  resampled table and the interpolator, a lookup from a radius and a surface density to
  a rate, or raises; and each of the three updaters is a pure function of the current
  simulation state that returns the new value of its field, or raises. The four
  functions are the components of a record that the definitions below take as a
  parameter; nothing is assumed about what they compute.
\<close>

record functions_ext_pe =
  get_MassLoss_ResampleGrid ::
    "string \<Rightarrow> string list \<Rightarrow> real \<Rightarrow> real \<Rightarrow> real list \<Rightarrow> real list \<Rightarrow> real list
       \<Rightarrow> error + (real list list \<times> interpolator)"
  MassLoss_FRIED :: "Simulation \<Rightarrow> error + real list"
  TruncationRadius :: "Simulation \<Rightarrow> error + real"
  LimitInRadius :: "Simulation \<Rightarrow> error + real"

subsection \<open>\<^verbatim>\<open>param_ext_pe_FRIED\<close>\<close>

definition default_UV_Flux :: real where
  "default_UV_Flux = 1000"

definition param_ext_pe_FRIED :: "Simulation \<Rightarrow> real \<Rightarrow> Simulation" where
  "param_ext_pe_FRIED sim UV =
     sim\<lparr>EPE := Some
       \<lparr>EPE_description = ''external photoevaporation'',
        FRIED =
          \<lparr>FRIED_description =
             ''FRIED grid used to calculate mass loss rates due to external photoevaporation'',
           UV_Flux = addfield UV ''UV Flux [G_0]'' True True,
           Table = None, Interpolator = None, rTrunc = None, rLim_in = None,
           MassLoss = None, FRIED_updater = []\<rparr>\<rparr>\<rparr>"

subsection \<open>\<^verbatim>\<open>setup_ext_pe_FRIED\<close>\<close>

definition default_fried_filenames :: "string list" where
  "default_fried_filenames =
     [''FRIEDV2_0p1Msol_fPAH1p0_growth.dat'',
      ''FRIEDV2_0p3Msol_fPAH1p0_growth.dat'',
      ''FRIEDV2_0p6Msol_fPAH1p0_growth.dat'',
      ''FRIEDV2_1p0Msol_fPAH1p0_growth.dat'',
      ''FRIEDV2_1p5Msol_fPAH1p0_growth.dat'',
      ''FRIEDV2_3p0Msol_fPAH1p0_growth.dat'']"

definition default_SigmaFloor :: real where
  "default_SigmaFloor = 1 / 10 ^ 100"

text \<open>
  \<^verbatim>\<open>grid_radii = np.concatenate((np.array([5]), np.linspace(10,1000, num = 106)))\<close>
\<close>

definition grid_radii :: "real list" where
  "grid_radii = [5] @ linspace 10 1000 106"

text \<open>
  \<^verbatim>\<open>grid_Sigma = np.concatenate((np.array([1e-8,1e-7,1e-6,1e-5,1e-4]),
  np.logspace(-3, 3, num = 100), np.array([5e3,1e4])))\<close>
\<close>

definition grid_Sigma :: "real list" where
  "grid_Sigma =
     [1 / 10 ^ 8, 1 / 10 ^ 7, 1 / 10 ^ 6, 1 / 10 ^ 5, 1 / 10 ^ 4]
     @ logspace (- 3) 3 100 @ [5000, 10000]"

text \<open>
  The body, in the order of the source: the two grids and their product
  \<^verbatim>\<open>grid_Sigma1AU\<close>; the call of \<^verbatim>\<open>get_MassLoss_ResampleGrid\<close>, whose arguments read
  \<^verbatim>\<open>sim.star.M\<close> and \<^verbatim>\<open>sim.EPE.FRIED.UV_Flux\<close> (an \<^verbatim>\<open>AttributeError\<close> when
  \<^verbatim>\<open>param_ext_pe_FRIED\<close> has not run); the group \<^verbatim>\<open>Table\<close> with its three fields; the
  attribute \<^verbatim>\<open>_Interpolator\<close>; the fields \<^verbatim>\<open>rTrunc\<close>, \<^verbatim>\<open>rLim_in\<close> (both from
  \<^verbatim>\<open>sim.grid.r[-1]\<close>, an \<^verbatim>\<open>IndexError\<close> on an empty grid) and \<^verbatim>\<open>MassLoss\<close>; their
  updaters and the group's update order; the two source terms; the gas floor.
\<close>

definition setup_ext_pe_FRIED ::
  "real \<Rightarrow> functions_ext_pe \<Rightarrow> Simulation \<Rightarrow> string \<Rightarrow> string list \<Rightarrow> real
     \<Rightarrow> error + Simulation" where
  "setup_ext_pe_FRIED M_sun fns sim fried_dir fried_filenames SigmaFloor =
     (case np_mul grid_Sigma grid_radii of
        Inl e \<Rightarrow> Inl e
      | Inr grid_Sigma1AU \<Rightarrow>
     (case EPE sim of
        None \<Rightarrow> Inl (AttributeError ''EPE'')
      | Some epe \<Rightarrow>
     (case get_MassLoss_ResampleGrid fns fried_dir fried_filenames
             (star_M sim / M_sun) (val (UV_Flux (FRIED epe)))
             grid_radii grid_Sigma grid_Sigma1AU of
        Inl e \<Rightarrow> Inl e
      | Inr (grid_MassLoss, grid_MassLoss_Interpolator) \<Rightarrow>
     (if grid_r sim = [] then Inl IndexError
      else
        let fried = (FRIED epe)
              \<lparr>Table := Some
                 \<lparr>Table_description =
                    ''(Resampled) Table of the mass loss rates for a given radial-Sigma grid.'',
                  Table_radii = addfield grid_radii
                    ''Outer disk radius input to calculate FRIED mass loss rates [AU], (array, nr)''
                    False True,
                  Table_Sigma = addfield grid_Sigma
                    ''Surface density grid to calculate FRIED mass loss rates [g/cm^2] (array, nSigma)''
                    False True,
                  Table_MassLoss = addfield grid_MassLoss
                    ''FRIED Mass loss rates [log10 (M_sun/year)] (grid, nr*nSigma)''
                    False True\<rparr>,
               Interpolator := Some grid_MassLoss_Interpolator,
               rTrunc := Some
                 ((addfield (last (grid_r sim)) ''Truncation radius [cm]'' False True)
                    \<lparr>updater := Some Fn_TruncationRadius\<rparr>),
               rLim_in := Some
                 ((addfield (last (grid_r sim)) ''Radius enclosing 0.9 disc mass [cm]''
                     False True)
                    \<lparr>updater := Some Fn_LimitInRadius\<rparr>),
               MassLoss := Some
                 ((addfield (zeros_like (grid_r sim))
                     ''Mass loss rate obtained by interpolating the FRIED Table at each grid cell [g/s]''
                     False True)
                    \<lparr>updater := Some Fn_MassLoss_FRIED\<rparr>),
               FRIED_updater := [''rLim_in'', ''rTrunc'', ''MassLoss'']\<rparr>
        in Inr (sim
              \<lparr>EPE := Some (epe\<lparr>FRIED := fried\<rparr>),
               gas_S_EPE := Some
                 (addfield (zeros_like (gas_Sigma sim))
                    ''Change in gas surface density through ext. photoevap'' False True),
               dust_S_EPE := Some
                 (addfield (zeros_like2 (dust_Sigma sim))
                    ''Change in dust surface density through ext. photoevap'' False True),
               gas_SigmaFloor := SigmaFloor\<rparr>)))))"

subsection \<open>\<^verbatim>\<open>setup_lostdust\<close>\<close>

text \<open>
  The host's \<^verbatim>\<open>sim.update()\<close>, the last statement of the body, is the parameter
  \<open>update\<close>. The description of \<^verbatim>\<open>lostdust.Sigma\<close> ends in a superscript two, the
  code point \<open>0xB2\<close>.

  The assignment to \<^verbatim>\<open>sim.updater\<close> raises \<^verbatim>\<open>RuntimeError\<close> at the first name of
  the list that is not an attribute of the object. With \<^verbatim>\<open>using_FRIED\<close> true the list
  names \<^verbatim>\<open>'FRIED'\<close>, which the module itself only creates as \<^verbatim>\<open>sim.EPE.FRIED\<close>. The
  same check on \<^verbatim>\<open>sim.lostdust.updater = ["M"]\<close>, and on the update order of the group
  \<^verbatim>\<open>FRIED\<close> in \<^verbatim>\<open>setup_ext_pe_FRIED\<close>, always passes: the names are fields that the
  function has just added.
\<close>

definition inst_lostdust :: Instruction where
  "inst_lostdust =
     \<lparr>inst_scheme = expl_1_euler, inst_Y = [''lostdust'', ''Sigma''],
      inst_description = ''Lost dust: explicit 1st-order Euler method''\<rparr>"

definition setup_lostdust ::
  "(Simulation \<Rightarrow> error + Simulation) \<Rightarrow> Simulation \<Rightarrow> bool \<Rightarrow> error + Simulation" where
  "setup_lostdust update sim using_FRIED =
     (let sim1 = sim\<lparr>lostdust := Some
            \<lparr>lostdust_description = ''Dust lost by photoevaporative entrainment'',
             lostdust_Sigma = addfield (zeros_like2 (dust_Sigma sim))
               (''Lost dust surface density [g/cm'' @ [CHR 0xB2] @ '']'') False True,
             lostdust_M = addfield 0 ''Total mass of lost dust [photoevaporationg]''
               False True,
             lostdust_updater = []\<rparr>\<rparr>;
          names =
            (if using_FRIED
             then [''star'', ''grid'', ''FRIED'', ''gas'', ''dust'', ''lostdust'']
             else [''star'', ''grid'', ''gas'', ''dust'', ''lostdust''])
      in case find (\<lambda>n. \<not> has_attribute sim1 n) names of
           Some n \<Rightarrow> Inl (RuntimeError n)
         | None \<Rightarrow>
     (let sim2 = sim1\<lparr>sim_updater := names\<rparr>;
          sim3 = sim2\<lparr>lostdust :=
            map_option (\<lambda>ld. ld\<lparr>lostdust_updater := [''M'']\<rparr>) (lostdust sim2)\<rparr>;
          sim4 = sim3\<lparr>lostdust :=
            map_option
              (\<lambda>ld. ld\<lparr>lostdust_Sigma :=
                 (lostdust_Sigma ld)\<lparr>differentiator := Some Fn_dSigma_lostdust\<rparr>\<rparr>)
              (lostdust sim3)\<rparr>;
          sim5 = sim4\<lparr>lostdust :=
            map_option
              (\<lambda>ld. ld\<lparr>lostdust_M := (lostdust_M ld)\<lparr>updater := Some Fn_M_lostdust\<rparr>\<rparr>)
              (lostdust sim4)\<rparr>;
          sim6 = sim5\<lparr>integrator_instructions :=
            integrator_instructions sim5 @ [inst_lostdust]\<rparr>
      in update sim6))"

subsection \<open>Reading and writing the module's fields\<close>

definition get_Table :: "Simulation \<Rightarrow> Table_group option" where
  "get_Table sim = (case EPE sim of None \<Rightarrow> None | Some epe \<Rightarrow> Table (FRIED epe))"

definition get_Interpolator :: "Simulation \<Rightarrow> interpolator option" where
  "get_Interpolator sim =
     (case EPE sim of None \<Rightarrow> None | Some epe \<Rightarrow> Interpolator (FRIED epe))"

definition get_rLim_in :: "Simulation \<Rightarrow> real field option" where
  "get_rLim_in sim = (case EPE sim of None \<Rightarrow> None | Some epe \<Rightarrow> rLim_in (FRIED epe))"

definition get_rTrunc :: "Simulation \<Rightarrow> real field option" where
  "get_rTrunc sim = (case EPE sim of None \<Rightarrow> None | Some epe \<Rightarrow> rTrunc (FRIED epe))"

definition get_MassLoss :: "Simulation \<Rightarrow> real list field option" where
  "get_MassLoss sim = (case EPE sim of None \<Rightarrow> None | Some epe \<Rightarrow> MassLoss (FRIED epe))"

definition get_FRIED_updater :: "Simulation \<Rightarrow> string list" where
  "get_FRIED_updater sim =
     (case EPE sim of None \<Rightarrow> [] | Some epe \<Rightarrow> FRIED_updater (FRIED epe))"

definition lostdust_differentiator :: "Simulation \<Rightarrow> callable option" where
  "lostdust_differentiator sim =
     (case lostdust sim of None \<Rightarrow> None | Some ld \<Rightarrow> differentiator (lostdust_Sigma ld))"

text \<open>Writing the value of one field; every other component stays as it is.\<close>

definition set_rLim_in :: "real \<Rightarrow> Simulation \<Rightarrow> Simulation" where
  "set_rLim_in v sim =
     sim\<lparr>EPE := map_option
       (\<lambda>epe. epe\<lparr>FRIED := (FRIED epe)
          \<lparr>rLim_in := map_option (\<lambda>f. f\<lparr>val := v\<rparr>) (rLim_in (FRIED epe))\<rparr>\<rparr>)
       (EPE sim)\<rparr>"

definition set_rTrunc :: "real \<Rightarrow> Simulation \<Rightarrow> Simulation" where
  "set_rTrunc v sim =
     sim\<lparr>EPE := map_option
       (\<lambda>epe. epe\<lparr>FRIED := (FRIED epe)
          \<lparr>rTrunc := map_option (\<lambda>f. f\<lparr>val := v\<rparr>) (rTrunc (FRIED epe))\<rparr>\<rparr>)
       (EPE sim)\<rparr>"

definition set_MassLoss :: "real list \<Rightarrow> Simulation \<Rightarrow> Simulation" where
  "set_MassLoss v sim =
     sim\<lparr>EPE := map_option
       (\<lambda>epe. epe\<lparr>FRIED := (FRIED epe)
          \<lparr>MassLoss := map_option (\<lambda>f. f\<lparr>val := v\<rparr>) (MassLoss (FRIED epe))\<rparr>\<rparr>)
       (EPE sim)\<rparr>"

definition set_lostdust_M :: "real \<Rightarrow> Simulation \<Rightarrow> Simulation" where
  "set_lostdust_M v sim =
     sim\<lparr>lostdust := map_option
       (\<lambda>ld. ld\<lparr>lostdust_M := (lostdust_M ld)\<lparr>val := v\<rparr>\<rparr>) (lostdust sim)\<rparr>"

definition set_lostdust_Sigma :: "real list list \<Rightarrow> Simulation \<Rightarrow> Simulation" where
  "set_lostdust_Sigma v sim =
     sim\<lparr>lostdust := map_option
       (\<lambda>ld. ld\<lparr>lostdust_Sigma := (lostdust_Sigma ld)\<lparr>val := v\<rparr>\<rparr>) (lostdust sim)\<rparr>"

subsection \<open>Calls on the simulation object\<close>

text \<open>
  A call of one of the module's two functions on the simulation object: the value it
  returns and the object after the call. Neither body contains an assignment, and the
  negation and the sums build new arrays.
\<close>

definition call_dSigma_lostdust ::
  "Simulation \<Rightarrow> 'x \<Rightarrow> 'y \<Rightarrow> real list list \<times> Simulation" where
  "call_dSigma_lostdust sim x Y = (dSigma_lostdust sim x Y, sim)"

definition call_M_lostdust :: "Simulation \<Rightarrow> (error + real) \<times> Simulation" where
  "call_M_lostdust sim = (M_lostdust sim, sim)"

subsection \<open>The host's contract for updaters, differentiators and the integrator\<close>

text \<open>
  Modelled from the spec: the host framework is not among the sources. This is what it
  does with what the module registers, as far as the properties below need it.
  Updating a field calls its updater with the simulation object and stores the
  returned value in the field; a field without updater is left alone. Updating a group
  updates the names of its \<^verbatim>\<open>updater\<close> list, in the order of the list. Taking the
  derivative of a field calls its differentiator with the object, \<open>x\<close> and \<open>Y\<close>. An
  explicit Euler step over \<open>dt\<close> adds \<open>dt\<close> times the derivative to the field.

  A callable of the wrong arity or result shape for the place it is called from, and a
  name in an update list that the module never puts there, are outside the sources: the
  model stops there with an error.
\<close>

definition call_updater_scalar ::
  "functions_ext_pe \<Rightarrow> callable \<Rightarrow> Simulation \<Rightarrow> error + real" where
  "call_updater_scalar fns f sim =
     (case f of
        Fn_LimitInRadius \<Rightarrow> LimitInRadius fns sim
      | Fn_TruncationRadius \<Rightarrow> TruncationRadius fns sim
      | Fn_M_lostdust \<Rightarrow> fst (call_M_lostdust sim)
      | Fn_MassLoss_FRIED \<Rightarrow> Inl ValueError
      | Fn_dSigma_lostdust \<Rightarrow> Inl TypeError)"

definition call_updater_array ::
  "functions_ext_pe \<Rightarrow> callable \<Rightarrow> Simulation \<Rightarrow> error + real list" where
  "call_updater_array fns f sim =
     (case f of
        Fn_MassLoss_FRIED \<Rightarrow> MassLoss_FRIED fns sim
      | Fn_dSigma_lostdust \<Rightarrow> Inl TypeError
      | _ \<Rightarrow> Inl ValueError)"

definition call_differentiator ::
  "callable \<Rightarrow> Simulation \<Rightarrow> 'x \<Rightarrow> 'y \<Rightarrow> error + real list list" where
  "call_differentiator f sim x Y =
     (case f of
        Fn_dSigma_lostdust \<Rightarrow> Inr (fst (call_dSigma_lostdust sim x Y))
      | _ \<Rightarrow> Inl TypeError)"

definition update_rLim_in :: "functions_ext_pe \<Rightarrow> Simulation \<Rightarrow> error + Simulation" where
  "update_rLim_in fns sim =
     (case get_rLim_in sim of
        None \<Rightarrow> Inl (AttributeError ''rLim_in'')
      | Some fld \<Rightarrow>
          (case updater fld of
             None \<Rightarrow> Inr sim
           | Some f \<Rightarrow>
               (case call_updater_scalar fns f sim of
                  Inl e \<Rightarrow> Inl e
                | Inr v \<Rightarrow> Inr (set_rLim_in v sim))))"

definition update_rTrunc :: "functions_ext_pe \<Rightarrow> Simulation \<Rightarrow> error + Simulation" where
  "update_rTrunc fns sim =
     (case get_rTrunc sim of
        None \<Rightarrow> Inl (AttributeError ''rTrunc'')
      | Some fld \<Rightarrow>
          (case updater fld of
             None \<Rightarrow> Inr sim
           | Some f \<Rightarrow>
               (case call_updater_scalar fns f sim of
                  Inl e \<Rightarrow> Inl e
                | Inr v \<Rightarrow> Inr (set_rTrunc v sim))))"

definition update_MassLoss :: "functions_ext_pe \<Rightarrow> Simulation \<Rightarrow> error + Simulation" where
  "update_MassLoss fns sim =
     (case get_MassLoss sim of
        None \<Rightarrow> Inl (AttributeError ''MassLoss'')
      | Some fld \<Rightarrow>
          (case updater fld of
             None \<Rightarrow> Inr sim
           | Some f \<Rightarrow>
               (case call_updater_array fns f sim of
                  Inl e \<Rightarrow> Inl e
                | Inr v \<Rightarrow> Inr (set_MassLoss v sim))))"

definition update_lostdust_M :: "functions_ext_pe \<Rightarrow> Simulation \<Rightarrow> error + Simulation" where
  "update_lostdust_M fns sim =
     (case lostdust sim of
        None \<Rightarrow> Inl (AttributeError ''lostdust'')
      | Some ld \<Rightarrow>
          (case updater (lostdust_M ld) of
             None \<Rightarrow> Inr sim
           | Some f \<Rightarrow>
               (case call_updater_scalar fns f sim of
                  Inl e \<Rightarrow> Inl e
                | Inr v \<Rightarrow> Inr (set_lostdust_M v sim))))"

definition update_FRIED_field ::
  "functions_ext_pe \<Rightarrow> string \<Rightarrow> Simulation \<Rightarrow> error + Simulation" where
  "update_FRIED_field fns n sim =
     (if n = ''rLim_in'' then update_rLim_in fns sim
      else if n = ''rTrunc'' then update_rTrunc fns sim
      else if n = ''MassLoss'' then update_MassLoss fns sim
      else Inl (ExternalError n))"

definition update_lostdust_field ::
  "functions_ext_pe \<Rightarrow> string \<Rightarrow> Simulation \<Rightarrow> error + Simulation" where
  "update_lostdust_field fns n sim =
     (if n = ''M'' then update_lostdust_M fns sim else Inl (ExternalError n))"

fun update_names ::
  "(string \<Rightarrow> Simulation \<Rightarrow> error + Simulation) \<Rightarrow> string list \<Rightarrow> Simulation
     \<Rightarrow> error + Simulation" where
  "update_names upd [] sim = Inr sim"
| "update_names upd (n # ns) sim =
     (case upd n sim of Inl e \<Rightarrow> Inl e | Inr sim' \<Rightarrow> update_names upd ns sim')"

definition update_FRIED :: "functions_ext_pe \<Rightarrow> Simulation \<Rightarrow> error + Simulation" where
  "update_FRIED fns sim =
     (case EPE sim of
        None \<Rightarrow> Inl (AttributeError ''EPE'')
      | Some epe \<Rightarrow> update_names (update_FRIED_field fns) (FRIED_updater (FRIED epe)) sim)"

definition update_lostdust :: "functions_ext_pe \<Rightarrow> Simulation \<Rightarrow> error + Simulation" where
  "update_lostdust fns sim =
     (case lostdust sim of
        None \<Rightarrow> Inl (AttributeError ''lostdust'')
      | Some ld \<Rightarrow> update_names (update_lostdust_field fns) (lostdust_updater ld) sim)"

definition lostdust_derivative :: "Simulation \<Rightarrow> 'x \<Rightarrow> 'y \<Rightarrow> error + real list list" where
  "lostdust_derivative sim x Y =
     (case lostdust_differentiator sim of
        None \<Rightarrow> Inl (ExternalError ''differentiator'')
      | Some f \<Rightarrow> call_differentiator f sim x Y)"

definition euler_lostdust :: "real \<Rightarrow> real \<Rightarrow> Simulation \<Rightarrow> error + Simulation" where
  "euler_lostdust x dt sim =
     (case lostdust sim of
        None \<Rightarrow> Inl (AttributeError ''lostdust'')
      | Some ld \<Rightarrow>
          (case lostdust_derivative sim x (val (lostdust_Sigma ld)) of
             Inl e \<Rightarrow> Inl e
           | Inr d \<Rightarrow>
               if map length d = map length (val (lostdust_Sigma ld))
               then Inr (set_lostdust_Sigma
                       (np_add2 (val (lostdust_Sigma ld)) (map (map ((*) dt)) d)) sim)
               else Inl ValueError))"

text \<open>
  A run after setup, as a sequence of the host's actions on what the module registered:
  an update of the group \<^verbatim>\<open>FRIED\<close>, an update of the group \<^verbatim>\<open>lostdust\<close>, an Euler step
  of \<^verbatim>\<open>lostdust.Sigma\<close> at \<open>x\<close> over \<open>dt\<close>.
\<close>

datatype host_action = Update_FRIED | Update_lostdust | Integrate_lostdust real real

fun host_act :: "functions_ext_pe \<Rightarrow> host_action \<Rightarrow> Simulation \<Rightarrow> error + Simulation" where
  "host_act fns Update_FRIED sim = update_FRIED fns sim"
| "host_act fns Update_lostdust sim = update_lostdust fns sim"
| "host_act fns (Integrate_lostdust x dt) sim = euler_lostdust x dt sim"

fun run :: "functions_ext_pe \<Rightarrow> host_action list \<Rightarrow> Simulation \<Rightarrow> error + Simulation" where
  "run fns [] sim = Inr sim"
| "run fns (a # as) sim =
     (case host_act fns a sim of Inl e \<Rightarrow> Inl e | Inr sim' \<Rightarrow> run fns as sim')"

subsection \<open>A small disk for the concrete instances\<close>

text \<open>
  Two radial cells and two dust species; one solar mass, with the value of
  \<^verbatim>\<open>dustpy.constants.M_sun\<close> in grams; the host's default update order and one
  instruction of the host.
\<close>

definition example_M_sun :: real where
  "example_M_sun = 1988409870698051 * 10 ^ 18"

definition example_sim :: Simulation where
  "example_sim =
     \<lparr>star_M = 1988409870698051 * 10 ^ 18,
      grid_r = [1, 2],
      grid_A = [3, 9],
      gas_Sigma = [100, 0],
      gas_SigmaFloor = 1 / 10 ^ 100,
      gas_S_EPE = None,
      dust_Sigma = [ [1, 1 / 2], [0, 0] ],
      dust_S_ext = [ [0, 0], [0, 0] ],
      dust_S_EPE = None,
      EPE = None,
      lostdust = None,
      sim_updater = [''star'', ''grid'', ''gas'', ''dust''],
      integrator_instructions =
        [\<lparr>inst_scheme = host_scheme ''impl_1_direct'', inst_Y = [''dust'', ''Sigma''],
          inst_description = ''Dust''\<rparr>],
      other_attributes = [''ini'', ''t'', ''integrator'', ''writer'']\<rparr>"

text \<open>
  Stand-ins for the imported functions: a constant table and interpolator, the outermost
  radius for both radii, and a mass-loss rate of one in every cell.
\<close>

definition example_functions :: functions_ext_pe where
  "example_functions =
     \<lparr>get_MassLoss_ResampleGrid =
        (\<lambda>dir files Mstar UV radii Sigma Sigma1AU.
           Inr (replicate (length radii) (replicate (length Sigma) (- 10)),
                (\<lambda>r S. - 10))),
      MassLoss_FRIED = (\<lambda>sim. Inr (replicate (length (grid_r sim)) 1)),
      TruncationRadius = (\<lambda>sim. if grid_r sim = [] then Inl IndexError
                                  else Inr (last (grid_r sim))),
      LimitInRadius = (\<lambda>sim. if grid_r sim = [] then Inl IndexError
                               else Inr (hd (grid_r sim)))\<rparr>"

text \<open>The small disk after both setup functions of the photoevaporation part.\<close>

definition example_setup :: "error + Simulation" where
  "example_setup =
     setup_ext_pe_FRIED example_M_sun example_functions
       (param_ext_pe_FRIED example_sim default_UV_Flux)
       ''FRIEDV2/'' default_fried_filenames default_SigmaFloor"


definition example_dust_S_EPE :: "real list list field" where
  "example_dust_S_EPE =
     addfield [ [0, 0], [- 1, - 2] ]
       ''Change in dust surface density through ext. photoevap'' False True"

definition example_evaporating :: Simulation where
  "example_evaporating = example_sim\<lparr>dust_S_EPE := Some example_dust_S_EPE\<rparr>"

text \<open>A host update that updates the group \<^verbatim>\<open>lostdust\<close> and nothing else.\<close>

definition example_update :: "Simulation \<Rightarrow> error + Simulation" where
  "example_update = update_lostdust example_functions"

text \<open>\<^verbatim>\<open>setup_lostdust\<close> on the evaporating disk, for either value of the flag.\<close>

definition example_tracked :: "bool \<Rightarrow> error + Simulation" where
  "example_tracked using_FRIED = setup_lostdust example_update example_evaporating using_FRIED"

text \<open>
  The small disk after the setup of the photoevaporation part, on which the caller has
  added a group \<^verbatim>\<open>FRIED\<close> to the object itself, with the photoevaporative dust source
  term at work in the outer cell; and \<^verbatim>\<open>setup_lostdust\<close> on it.
\<close>

definition example_extended :: Simulation where
  "example_extended =
     (projr example_setup)
       \<lparr>dust_S_EPE := Some example_dust_S_EPE,
        other_attributes := ''FRIED'' # other_attributes (projr example_setup)\<rparr>"

definition example_tracked_extended :: "bool \<Rightarrow> error + Simulation" where
  "example_tracked_extended using_FRIED =
     setup_lostdust example_update example_extended using_FRIED"

text \<open>The small disk with some dust already lost from both cells.\<close>

definition example_lostdust :: lostdust_group where
  "example_lostdust =
     \<lparr>lostdust_description = ''Dust lost by photoevaporative entrainment'',
      lostdust_Sigma =
        (addfield [ [1, 2], [3, 4] ] ''Lost dust surface density'' False True)
          \<lparr>differentiator := Some Fn_dSigma_lostdust\<rparr>,
      lostdust_M =
        (addfield 0 ''Total mass of lost dust [photoevaporationg]'' False True)
          \<lparr>updater := Some Fn_M_lostdust\<rparr>,
      lostdust_updater = [''M'']\<rparr>"

definition example_lost :: Simulation where
  "example_lost = example_sim\<lparr>lostdust := Some example_lostdust\<rparr>"

text \<open>
  The setup of the photoevaporation part on the small disk with the lost-dust group of
  above: afterwards every field of the module is present.
\<close>

definition example_setup_lost :: "error + Simulation" where
  "example_setup_lost =
     setup_ext_pe_FRIED example_M_sun example_functions
       (param_ext_pe_FRIED example_lost default_UV_Flux)
       ''FRIEDV2/'' default_fried_filenames default_SigmaFloor"

definition example_ready :: Simulation where
  "example_ready = projr example_setup_lost"

text \<open>A short run from there: an update of each group around one Euler step.\<close>

definition example_actions :: "host_action list" where
  "example_actions = [Update_FRIED, Integrate_lostdust 0 (1 / 2), Update_lostdust]"

definition example_run :: "error + Simulation" where
  "example_run = run example_functions example_actions example_ready"

section \<open>Auxiliary facts\<close>

lemmas access_defs =
  get_Table_def get_Interpolator_def get_rLim_in_def get_rTrunc_def get_MassLoss_def
  get_FRIED_updater_def lostdust_differentiator_def
  set_rLim_in_def set_rTrunc_def set_MassLoss_def set_lostdust_M_def set_lostdust_Sigma_def

lemmas example_defs =
  example_M_sun_def example_sim_def example_functions_def example_setup_def
  example_dust_S_EPE_def example_evaporating_def example_update_def example_tracked_def
  example_extended_def example_tracked_extended_def
  example_lostdust_def example_lost_def example_setup_lost_def example_ready_def
  example_actions_def example_run_def
  default_UV_Flux_def default_SigmaFloor_def

lemmas host_defs =
  call_updater_scalar_def call_updater_array_def call_differentiator_def
  call_dSigma_lostdust_def call_M_lostdust_def
  update_rLim_in_def update_rTrunc_def update_MassLoss_def update_lostdust_M_def
  update_FRIED_field_def update_lostdust_field_def update_FRIED_def update_lostdust_def
  lostdust_derivative_def euler_lostdust_def

lemma add_neg_row: "map2 (+) r (map uminus r) = replicate (length r) (0::real)"
  by (induction r) simp_all

lemma add_neg_rows:
  "map2 (map2 (+)) a (map (map uminus) a) = map (\<lambda>r. replicate (length r) (0::real)) a"
  by (induction a) (simp_all add: add_neg_row)

lemma length_grids: "length grid_Sigma = length grid_radii"
  by (simp add: grid_Sigma_def grid_radii_def linspace_def logspace_def)

lemma np_mul_same: "length a = length b \<Longrightarrow> np_mul a b = Inr (map2 (*) a b)"
  by (simp add: np_mul_def)

lemma np_mul_grids: "np_mul grid_Sigma grid_radii = Inr (map2 (*) grid_Sigma grid_radii)"
  by (simp add: np_mul_same length_grids)

text \<open>What a write of one field leaves alone.\<close>

lemma after_set_rLim_in:
  "get_Table (set_rLim_in v s) = get_Table s"
  "get_Interpolator (set_rLim_in v s) = get_Interpolator s"
  "get_rTrunc (set_rLim_in v s) = get_rTrunc s"
  "get_MassLoss (set_rLim_in v s) = get_MassLoss s"
  "get_FRIED_updater (set_rLim_in v s) = get_FRIED_updater s"
  by (cases "EPE s"; simp add: access_defs)+

lemma after_set_rTrunc:
  "get_Table (set_rTrunc v s) = get_Table s"
  "get_Interpolator (set_rTrunc v s) = get_Interpolator s"
  "get_MassLoss (set_rTrunc v s) = get_MassLoss s"
  "get_FRIED_updater (set_rTrunc v s) = get_FRIED_updater s"
  by (cases "EPE s"; simp add: access_defs)+

lemma after_set_MassLoss:
  "get_Table (set_MassLoss v s) = get_Table s"
  "get_Interpolator (set_MassLoss v s) = get_Interpolator s"
  by (cases "EPE s"; simp add: access_defs)+

lemma after_set_lostdust:
  "get_Table (set_lostdust_M m s) = get_Table s"
  "get_Interpolator (set_lostdust_M m s) = get_Interpolator s"
  "get_Table (set_lostdust_Sigma a s) = get_Table s"
  "get_Interpolator (set_lostdust_Sigma a s) = get_Interpolator s"
  by (simp_all add: access_defs)

lemma set_twice:
  "set_rLim_in w (set_rLim_in v s) = set_rLim_in w s"
  "set_rTrunc w (set_rTrunc v s) = set_rTrunc w s"
  "set_MassLoss b (set_MassLoss a s) = set_MassLoss b s"
  "set_lostdust_M w (set_lostdust_M v s) = set_lostdust_M w s"
  by (simp_all add: access_defs option.map_comp comp_def)

text \<open>An update of a list of names keeps what each single update keeps.\<close>

lemma update_names_keeps:
  assumes step: "\<And>n s s'. upd n s = Inr s' \<Longrightarrow> f s' = f s"
    and res: "update_names upd ns s = Inr s'"
  shows "f s' = f s"
  using res
proof (induction ns arbitrary: s)
  case Nil
  then show ?case by simp
next
  case (Cons n ns)
  then obtain t where t: "upd n s = Inr t" and r: "update_names upd ns t = Inr s'"
    by (auto split: sum.splits)
  from Cons.IH [OF r] step [OF t] show ?case by simp
qed

lemma update_FRIED_field_artifacts:
  assumes "update_FRIED_field fns n s = Inr s'"
  shows "(get_Table s', get_Interpolator s') = (get_Table s, get_Interpolator s)"
  using assms
  by (auto simp: update_FRIED_field_def update_rLim_in_def update_rTrunc_def
        update_MassLoss_def after_set_rLim_in after_set_rTrunc after_set_MassLoss
      split: if_splits option.splits sum.splits)

lemma update_lostdust_field_artifacts:
  assumes "update_lostdust_field fns n s = Inr s'"
  shows "(get_Table s', get_Interpolator s') = (get_Table s, get_Interpolator s)"
  using assms
  by (auto simp: update_lostdust_field_def update_lostdust_M_def after_set_lostdust
      split: if_splits option.splits sum.splits)

lemma host_act_artifacts:
  assumes "host_act fns a s = Inr s'"
  shows "(get_Table s', get_Interpolator s') = (get_Table s, get_Interpolator s)"
proof (cases a)
  case Update_FRIED
  with assms show ?thesis
    by (auto simp: update_FRIED_def split: option.splits
        dest: update_names_keeps [rotated, where f = "\<lambda>s. (get_Table s, get_Interpolator s)",
                OF _ update_FRIED_field_artifacts])
next
  case Update_lostdust
  with assms show ?thesis
    by (auto simp: update_lostdust_def split: option.splits
        dest: update_names_keeps [rotated, where f = "\<lambda>s. (get_Table s, get_Interpolator s)",
                OF _ update_lostdust_field_artifacts])
next
  case (Integrate_lostdust x dt)
  with assms show ?thesis
    by (auto simp: euler_lostdust_def after_set_lostdust
        split: option.splits sum.splits if_splits)
qed

lemma run_artifacts:
  assumes "run fns as s = Inr s'"
  shows "(get_Table s', get_Interpolator s') = (get_Table s, get_Interpolator s)"
  using assms
proof (induction as arbitrary: s)
  case Nil
  then show ?case by simp
next
  case (Cons a as)
  then obtain t where t: "host_act fns a s = Inr t" and r: "run fns as t = Inr s'"
    by (auto split: sum.splits)
  from Cons.IH [OF r] host_act_artifacts [OF t] show ?case by simp
qed

text \<open>
  With the flag true, \<^verbatim>\<open>setup_lostdust\<close> raises on every object that has no attribute
  \<^verbatim>\<open>FRIED\<close> of its own.
\<close>

lemma setup_lostdust_FRIED_missing:
  assumes "''FRIED'' \<notin> set (other_attributes sim)"
  shows "setup_lostdust update sim True = Inl (RuntimeError ''FRIED'')"
  using assms by (simp add: setup_lostdust_def Let_def has_attribute_def)

text \<open>
  Otherwise it hands an object to the host's update that carries what it has
  registered, and the table and the interpolator of the object it was given.
\<close>

lemma setup_lostdust_shape:
  "setup_lostdust update sim using_FRIED = Inl (RuntimeError ''FRIED'')
   \<or> (\<exists>s6. setup_lostdust update sim using_FRIED = update s6
         \<and> lostdust_differentiator s6 = Some Fn_dSigma_lostdust
         \<and> sim_updater s6 =
             (if using_FRIED
              then [''star'', ''grid'', ''FRIED'', ''gas'', ''dust'', ''lostdust'']
              else [''star'', ''grid'', ''gas'', ''dust'', ''lostdust''])
         \<and> integrator_instructions s6 = integrator_instructions sim @ [inst_lostdust]
         \<and> get_Table s6 = get_Table sim
         \<and> get_Interpolator s6 = get_Interpolator sim)"
proof (cases "using_FRIED \<and> ''FRIED'' \<notin> set (other_attributes sim)")
  case True
  then have "setup_lostdust update sim using_FRIED = Inl (RuntimeError ''FRIED'')"
    by (simp add: setup_lostdust_FRIED_missing)
  then show ?thesis ..
next
  case False
  have "\<exists>s6. setup_lostdust update sim using_FRIED = update s6
          \<and> lostdust_differentiator s6 = Some Fn_dSigma_lostdust
          \<and> sim_updater s6 =
              (if using_FRIED
               then [''star'', ''grid'', ''FRIED'', ''gas'', ''dust'', ''lostdust'']
               else [''star'', ''grid'', ''gas'', ''dust'', ''lostdust''])
          \<and> integrator_instructions s6 = integrator_instructions sim @ [inst_lostdust]
          \<and> get_Table s6 = get_Table sim
          \<and> get_Interpolator s6 = get_Interpolator sim"
  proof (cases using_FRIED)
    case True
    with False have mem: "''FRIED'' \<in> set (other_attributes sim)"
      by simp
    show ?thesis
      unfolding setup_lostdust_def Let_def
      by (simp add: has_attribute_def True mem, intro exI conjI, rule refl)
        (simp_all add: access_defs)
  next
    case False
    show ?thesis
      unfolding setup_lostdust_def Let_def
      by (simp add: has_attribute_def False, intro exI conjI, rule refl)
        (simp_all add: access_defs)
  qed
  then show ?thesis ..
qed

lemma setup_lostdust_registered:
  assumes "setup_lostdust update sim using_FRIED = Inr sim'"
  shows "\<exists>s6. update s6 = Inr sim'
           \<and> lostdust_differentiator s6 = Some Fn_dSigma_lostdust
           \<and> sim_updater s6 =
               (if using_FRIED
                then [''star'', ''grid'', ''FRIED'', ''gas'', ''dust'', ''lostdust'']
                else [''star'', ''grid'', ''gas'', ''dust'', ''lostdust''])
           \<and> integrator_instructions s6 = integrator_instructions sim @ [inst_lostdust]"
proof -
  from setup_lostdust_shape [of update sim using_FRIED] assms
  obtain s6 where
    "setup_lostdust update sim using_FRIED = update s6"
    "lostdust_differentiator s6 = Some Fn_dSigma_lostdust"
    "sim_updater s6 =
       (if using_FRIED
        then [''star'', ''grid'', ''FRIED'', ''gas'', ''dust'', ''lostdust'']
        else [''star'', ''grid'', ''gas'', ''dust'', ''lostdust''])"
    "integrator_instructions s6 = integrator_instructions sim @ [inst_lostdust]"
    by auto
  with assms show ?thesis
    by (intro exI [of _ s6]) simp
qed

text \<open>The module's own setup adds no attribute \<^verbatim>\<open>FRIED\<close> to the object itself.\<close>

lemma setup_lostdust_after_own_setup:
  assumes "''FRIED'' \<notin> set (other_attributes sim)"
    and "setup_ext_pe_FRIED M_sun fns (param_ext_pe_FRIED sim UV)
           fried_dir fried_filenames SigmaFloor = Inr sim'"
  shows "setup_lostdust update sim' True = Inl (RuntimeError ''FRIED'')"
proof -
  from assms(2) have "other_attributes sim' = other_attributes sim"
    by (auto simp: setup_ext_pe_FRIED_def param_ext_pe_FRIED_def np_mul_grids Let_def
        split: option.splits sum.splits if_splits prod.splits)
  with assms(1) show ?thesis
    by (simp add: setup_lostdust_FRIED_missing)
qed

text \<open>The update of the group \<^verbatim>\<open>lostdust\<close> leaves the registrations alone.\<close>

lemma update_lostdust_field_wiring:
  assumes "update_lostdust_field fns n s = Inr s'"
  shows "(lostdust_differentiator s', sim_updater s', integrator_instructions s')
       = (lostdust_differentiator s, sim_updater s, integrator_instructions s)"
  using assms
  by (auto simp: update_lostdust_field_def update_lostdust_M_def access_defs
      split: if_splits option.splits sum.splits)

lemma example_update_wiring:
  assumes "example_update s = Inr s'"
  shows "lostdust_differentiator s' = lostdust_differentiator s"
    and "sim_updater s' = sim_updater s"
    and "integrator_instructions s' = integrator_instructions s"
proof -
  have "(lostdust_differentiator s', sim_updater s', integrator_instructions s')
      = (lostdust_differentiator s, sim_updater s, integrator_instructions s)"
    using assms
    by (auto simp: example_update_def update_lostdust_def split: option.splits
        dest: update_names_keeps [rotated,
                where f = "\<lambda>s. (lostdust_differentiator s, sim_updater s,
                                 integrator_instructions s)",
                OF _ update_lostdust_field_wiring])
  then show "lostdust_differentiator s' = lostdust_differentiator s"
    and "sim_updater s' = sim_updater s"
    and "integrator_instructions s' = integrator_instructions s"
    by simp_all
qed

text \<open>The concrete instances, evaluated.\<close>

lemma example_setup_returns: "example_setup = Inr (projr example_setup)"
  by (simp add: example_defs setup_ext_pe_FRIED_def param_ext_pe_FRIED_def np_mul_grids
        Let_def)

lemma example_setup_lost_returns: "example_setup_lost = Inr example_ready"
  by (simp add: example_defs setup_ext_pe_FRIED_def param_ext_pe_FRIED_def np_mul_grids
        Let_def)

lemma example_run_returns: "example_run = Inr (projr example_run)"
  by (simp add: example_defs setup_ext_pe_FRIED_def param_ext_pe_FRIED_def np_mul_grids
        Let_def host_defs M_lostdust_def dSigma_lostdust_def np_mul_same np_add2_def
        addfield_def zeros_like_def zeros_like2_def access_defs)

lemma example_tracked_returns: "example_tracked False = Inr (projr (example_tracked False))"
  by (simp add: example_defs setup_lostdust_def Let_def has_attribute_def host_defs
        M_lostdust_def np_mul_def addfield_def zeros_like_def zeros_like2_def access_defs)

lemma example_tracked_raises: "example_tracked True = Inl (RuntimeError ''FRIED'')"
  by (simp add: example_tracked_def example_evaporating_def example_sim_def
        setup_lostdust_FRIED_missing)

lemma example_tracked_extended_returns:
  "example_tracked_extended b = Inr (projr (example_tracked_extended b))"
  by (simp add: example_defs setup_ext_pe_FRIED_def param_ext_pe_FRIED_def np_mul_grids
        setup_lostdust_def Let_def has_attribute_def host_defs M_lostdust_def np_mul_same
        addfield_def zeros_like_def zeros_like2_def access_defs)


section \<open>The lost-dust tracker\<close>

text \<open>
  C9. The value of \<^verbatim>\<open>dSigma_lostdust(sim, x, Y)\<close> does not depend on \<open>x\<close> and \<open>Y\<close>:
  two calls on the same simulation state return the same array, whatever the other
  two arguments are (also of different types).
\<close>

theorem dSigma_lostdust_ignores_x_Y:
  "dSigma_lostdust sim x Y = dSigma_lostdust sim x' Y'"
  by (simp add: dSigma_lostdust_def)

text \<open>
  C1, as stated: the sum of \<^verbatim>\<open>dust.S.EPE\<close> and the value of the differentiator is zero
  in every entry. It fails on the evaporating disk: the differentiator reads
  \<^verbatim>\<open>dust.S.ext\<close>, which is zero there, so the sum is \<^verbatim>\<open>dust.S.EPE\<close> itself, with the
  entries \<open>-1\<close> and \<open>-2\<close> in the outer cell.
\<close>

theorem dSigma_lostdust_EPE_counterexample:
  "dust_S_EPE example_evaporating = Some example_dust_S_EPE
   \<and> np_add2 (val example_dust_S_EPE) (dSigma_lostdust example_evaporating () ())
       \<noteq> zeros_like2 (val example_dust_S_EPE)"
  by (simp add: example_defs addfield_def np_add2_def dSigma_lostdust_def zeros_like2_def
        zeros_like_def)

text \<open>
  C1, amended: for every simulation state and all \<open>x\<close> and \<open>Y\<close>, the differentiator
  returns the negation of the host's external dust source term \<^verbatim>\<open>dust.S.ext\<close>: their
  sum is the zero array of the shape of \<^verbatim>\<open>dust.S.ext\<close>.
\<close>

theorem dSigma_lostdust_negates_ext:
  "np_add2 (dust_S_ext sim) (dSigma_lostdust sim x Y) = zeros_like2 (dust_S_ext sim)"
proof -
  have "zeros_like2 (dust_S_ext sim)
      = map (\<lambda>r. replicate (length r) (0::real)) (dust_S_ext sim)"
    by (simp add: zeros_like2_def zeros_like_def)
  then show ?thesis
    by (simp add: np_add2_def dSigma_lostdust_def add_neg_rows)
qed

text \<open>
  C2, as stated: with \<^verbatim>\<open>using_FRIED\<close> true the registered differentiator draws on the
  photoevaporative source term, with \<^verbatim>\<open>using_FRIED\<close> false on a generic one. It fails
  on the disk that has had the setup of the photoevaporation part and a group
  \<^verbatim>\<open>FRIED\<close> added by the caller: \<^verbatim>\<open>setup_lostdust\<close> returns for both values of the
  flag, the differentiator it has registered is the same for both, and with the flag
  true the derivative it yields is zero in every entry, the negation of
  \<^verbatim>\<open>dust.S.ext\<close>, while \<^verbatim>\<open>dust.S.EPE\<close> is not zero.
\<close>

theorem using_FRIED_differentiator_counterexample:
  "example_tracked_extended True = Inr (projr (example_tracked_extended True))
   \<and> example_tracked_extended False = Inr (projr (example_tracked_extended False))
   \<and> lostdust_differentiator (projr (example_tracked_extended True))
       = lostdust_differentiator (projr (example_tracked_extended False))
   \<and> lostdust_derivative (projr (example_tracked_extended True)) () ()
       = Inr [ [0, 0], [0, 0] ]
   \<and> map_option val (dust_S_EPE (projr (example_tracked_extended True)))
       = Some [ [0, 0], [- 1, - 2] ]"
  by (simp add: example_defs setup_ext_pe_FRIED_def param_ext_pe_FRIED_def np_mul_grids
        setup_lostdust_def Let_def has_attribute_def host_defs M_lostdust_def np_mul_same
        addfield_def zeros_like_def zeros_like2_def access_defs dSigma_lostdust_def)

text \<open>
  C2, amended: the flag \<^verbatim>\<open>using_FRIED\<close> does not change the differentiator. Whenever
  \<^verbatim>\<open>setup_lostdust\<close> returns, for either value of the flag, the differentiator
  registered for \<^verbatim>\<open>lostdust.Sigma\<close> is \<^verbatim>\<open>dSigma_lostdust\<close>, and the derivative is the
  negation of the host's external dust source term \<^verbatim>\<open>dust.S.ext\<close>. With the flag
  false, \<^verbatim>\<open>sim.updater\<close> is then \<^verbatim>\<open>star\<close>, \<^verbatim>\<open>grid\<close>, \<^verbatim>\<open>gas\<close>, \<^verbatim>\<open>dust\<close>,
  \<^verbatim>\<open>lostdust\<close>. This is for a host whose \<^verbatim>\<open>sim.update()\<close> leaves the registered
  differentiator and the update order as they are.
\<close>

theorem using_FRIED_same_differentiator:
  assumes keep: "\<And>s s'. update s = Inr s' \<Longrightarrow>
            lostdust_differentiator s' = lostdust_differentiator s
            \<and> sim_updater s' = sim_updater s"
    and ret: "setup_lostdust update sim using_FRIED = Inr sim'"
  shows "lostdust_differentiator sim' = Some Fn_dSigma_lostdust
       \<and> lostdust_derivative sim' x Y = Inr (map (map uminus) (dust_S_ext sim'))
       \<and> (\<not> using_FRIED \<longrightarrow>
            sim_updater sim' = [''star'', ''grid'', ''gas'', ''dust'', ''lostdust''])"
proof -
  from setup_lostdust_registered [OF ret] obtain s6 where
    u: "update s6 = Inr sim'" and
    d: "lostdust_differentiator s6 = Some Fn_dSigma_lostdust" and
    o: "sim_updater s6 =
          (if using_FRIED
           then [''star'', ''grid'', ''FRIED'', ''gas'', ''dust'', ''lostdust'']
           else [''star'', ''grid'', ''gas'', ''dust'', ''lostdust''])"
    by blast
  from keep [OF u] d have d': "lostdust_differentiator sim' = Some Fn_dSigma_lostdust"
    by simp
  from keep [OF u] o have o': "\<not> using_FRIED \<longrightarrow>
      sim_updater sim' = [''star'', ''grid'', ''gas'', ''dust'', ''lostdust'']"
    by simp
  have "lostdust_derivative sim' x Y = Inr (map (map uminus) (dust_S_ext sim'))"
    by (simp add: lostdust_derivative_def d' call_differentiator_def
          call_dSigma_lostdust_def dSigma_lostdust_def)
  with d' o' show ?thesis by simp
qed

theorem using_FRIED_same_differentiator_witness:
  "example_tracked False = Inr (projr (example_tracked False))
   \<and> lostdust_differentiator (projr (example_tracked False)) = Some Fn_dSigma_lostdust
   \<and> lostdust_derivative (projr (example_tracked False)) () ()
       = Inr (map (map uminus) (dust_S_ext (projr (example_tracked False))))
   \<and> sim_updater (projr (example_tracked False))
       = [''star'', ''grid'', ''gas'', ''dust'', ''lostdust'']"
proof -
  have keep: "\<And>s s'. example_update s = Inr s' \<Longrightarrow>
            lostdust_differentiator s' = lostdust_differentiator s
            \<and> sim_updater s' = sim_updater s"
    by (simp add: example_update_wiring)
  have ret: "setup_lostdust example_update example_evaporating False
           = Inr (projr (example_tracked False))"
    using example_tracked_returns unfolding example_tracked_def .
  from using_FRIED_same_differentiator [OF keep ret, where x = "()" and Y = "()"]
  have "lostdust_differentiator (projr (example_tracked False)) = Some Fn_dSigma_lostdust
      \<and> lostdust_derivative (projr (example_tracked False)) () ()
          = Inr (map (map uminus) (dust_S_ext (projr (example_tracked False))))
      \<and> sim_updater (projr (example_tracked False))
          = [''star'', ''grid'', ''gas'', ''dust'', ''lostdust'']"
    by simp
  with example_tracked_returns show ?thesis
    by blast
qed

text \<open>
  C5. \<^verbatim>\<open>setup_lostdust\<close> appends exactly one instruction to the integrator's list, the
  explicit first-order Euler scheme on \<^verbatim>\<open>lostdust.Sigma\<close>, for a host whose
  \<^verbatim>\<open>sim.update()\<close> leaves the list as it is. The two other setup functions leave the
  list as it is, and the fields that \<^verbatim>\<open>setup_ext_pe_FRIED\<close> adds have no differentiator.
\<close>

theorem lostdust_only_integrated_field:
  assumes keep: "\<And>s s'. update s = Inr s' \<Longrightarrow>
            integrator_instructions s' = integrator_instructions s"
    and ret: "setup_lostdust update sim using_FRIED = Inr sim'"
  shows "integrator_instructions sim' = integrator_instructions sim @ [inst_lostdust]
       \<and> inst_scheme inst_lostdust = expl_1_euler
       \<and> inst_Y inst_lostdust = [''lostdust'', ''Sigma'']
       \<and> integrator_instructions (param_ext_pe_FRIED simP UV) = integrator_instructions simP
       \<and> (setup_ext_pe_FRIED M_sun fns simF fried_dir fried_filenames SigmaFloor = Inr simF'
            \<longrightarrow> integrator_instructions simF' = integrator_instructions simF
              \<and> Option.bind (get_rTrunc simF') differentiator = None
              \<and> Option.bind (get_rLim_in simF') differentiator = None
              \<and> Option.bind (get_MassLoss simF') differentiator = None
              \<and> Option.bind (gas_S_EPE simF') differentiator = None
              \<and> Option.bind (dust_S_EPE simF') differentiator = None)"
proof -
  from setup_lostdust_registered [OF ret] obtain s6 where
    u: "update s6 = Inr sim'" and
    i: "integrator_instructions s6 = integrator_instructions sim @ [inst_lostdust]"
    by blast
  from keep [OF u] i
  have 1: "integrator_instructions sim' = integrator_instructions sim @ [inst_lostdust]"
    by simp
  have 2: "integrator_instructions (param_ext_pe_FRIED simP UV) = integrator_instructions simP"
    by (simp add: param_ext_pe_FRIED_def)
  have 3: "integrator_instructions simF' = integrator_instructions simF
         \<and> Option.bind (get_rTrunc simF') differentiator = None
         \<and> Option.bind (get_rLim_in simF') differentiator = None
         \<and> Option.bind (get_MassLoss simF') differentiator = None
         \<and> Option.bind (gas_S_EPE simF') differentiator = None
         \<and> Option.bind (dust_S_EPE simF') differentiator = None"
    if "setup_ext_pe_FRIED M_sun fns simF fried_dir fried_filenames SigmaFloor = Inr simF'"
    using that
    by (auto simp: setup_ext_pe_FRIED_def np_mul_grids Let_def addfield_def access_defs
        split: option.splits sum.splits if_splits prod.splits)
  from 1 2 3 show ?thesis
    by (simp add: inst_lostdust_def)
qed

theorem lostdust_only_integrated_field_witness:
  "example_tracked False = Inr (projr (example_tracked False))
   \<and> integrator_instructions (projr (example_tracked False))
       = integrator_instructions example_evaporating @ [inst_lostdust]
   \<and> length (integrator_instructions (projr (example_tracked False))) = 2
   \<and> example_setup = Inr (projr example_setup)
   \<and> integrator_instructions (projr example_setup)
       = integrator_instructions (param_ext_pe_FRIED example_sim default_UV_Flux)
   \<and> integrator_instructions (param_ext_pe_FRIED example_sim default_UV_Flux)
       = integrator_instructions example_sim"
proof -
  have keep: "\<And>s s'. example_update s = Inr s' \<Longrightarrow>
            integrator_instructions s' = integrator_instructions s"
    by (simp add: example_update_wiring)
  have ret: "setup_lostdust example_update example_evaporating False
           = Inr (projr (example_tracked False))"
    using example_tracked_returns unfolding example_tracked_def .
  have fried: "setup_ext_pe_FRIED example_M_sun example_functions
                 (param_ext_pe_FRIED example_sim default_UV_Flux)
                 ''FRIEDV2/'' default_fried_filenames default_SigmaFloor
               = Inr (projr example_setup)"
    using example_setup_returns unfolding example_setup_def .
  have two: "length (integrator_instructions example_evaporating) = 1"
    by (simp add: example_evaporating_def example_sim_def)
  from lostdust_only_integrated_field [OF keep ret,
      where simF = "param_ext_pe_FRIED example_sim default_UV_Flux"
        and simF' = "projr example_setup" and M_sun = example_M_sun
        and fns = example_functions and fried_dir = "''FRIEDV2/''"
        and fried_filenames = default_fried_filenames and SigmaFloor = default_SigmaFloor
        and simP = example_sim and UV = default_UV_Flux]
    fried two
  have "integrator_instructions (projr (example_tracked False))
          = integrator_instructions example_evaporating @ [inst_lostdust]
      \<and> length (integrator_instructions (projr (example_tracked False))) = 2
      \<and> integrator_instructions (projr example_setup)
          = integrator_instructions (param_ext_pe_FRIED example_sim default_UV_Flux)
      \<and> integrator_instructions (param_ext_pe_FRIED example_sim default_UV_Flux)
          = integrator_instructions example_sim"
    by simp
  with example_tracked_returns example_setup_returns show ?thesis
    by blast
qed

section \<open>The photoevaporation setup\<close>

text \<open>
  C10. When \<^verbatim>\<open>setup_ext_pe_FRIED\<close> has returned, and before any update, \<^verbatim>\<open>rTrunc\<close>
  and \<^verbatim>\<open>rLim_in\<close> are both the outermost radius of the grid, the last entry of the
  non-empty \<^verbatim>\<open>sim.grid.r\<close>, and \<^verbatim>\<open>MassLoss\<close>, \<^verbatim>\<open>gas.S.EPE\<close> and \<^verbatim>\<open>dust.S.EPE\<close> are
  arrays of zeros of the shapes of \<^verbatim>\<open>sim.grid.r\<close>, \<^verbatim>\<open>sim.gas.Sigma\<close> and
  \<^verbatim>\<open>sim.dust.Sigma\<close>.
\<close>

theorem setup_ext_pe_FRIED_initial_values:
  assumes "setup_ext_pe_FRIED M_sun fns sim fried_dir fried_filenames SigmaFloor = Inr sim'"
  shows "grid_r sim' = grid_r sim \<and> grid_r sim' \<noteq> []
       \<and> map_option val (get_rTrunc sim') = Some (last (grid_r sim'))
       \<and> map_option val (get_rLim_in sim') = Some (last (grid_r sim'))
       \<and> map_option val (get_MassLoss sim') = Some (replicate (length (grid_r sim')) 0)
       \<and> map_option val (gas_S_EPE sim') = Some (replicate (length (gas_Sigma sim')) 0)
       \<and> map_option val (dust_S_EPE sim')
           = Some (map (\<lambda>row. replicate (length row) 0) (dust_Sigma sim'))"
  using assms
  by (auto simp: setup_ext_pe_FRIED_def np_mul_grids Let_def addfield_def access_defs
        zeros_like_def zeros_like2_def
      split: option.splits sum.splits if_splits prod.splits)

theorem setup_ext_pe_FRIED_initial_values_witness:
  "example_setup = Inr (projr example_setup)
   \<and> grid_r (projr example_setup) = [1, 2]
   \<and> map_option val (get_rTrunc (projr example_setup)) = Some 2
   \<and> map_option val (get_rLim_in (projr example_setup)) = Some 2
   \<and> map_option val (get_MassLoss (projr example_setup)) = Some [0, 0]
   \<and> map_option val (gas_S_EPE (projr example_setup)) = Some [0, 0]
   \<and> map_option val (dust_S_EPE (projr example_setup)) = Some [ [0, 0], [0, 0] ]"
proof -
  have ret: "setup_ext_pe_FRIED example_M_sun example_functions
               (param_ext_pe_FRIED example_sim default_UV_Flux)
               ''FRIEDV2/'' default_fried_filenames default_SigmaFloor
             = Inr (projr example_setup)"
    using example_setup_returns unfolding example_setup_def .
  have g: "grid_r (param_ext_pe_FRIED example_sim default_UV_Flux) = [1, 2]"
    and s: "gas_Sigma (projr example_setup) = [100, 0]"
    and d: "dust_Sigma (projr example_setup) = [ [1, 1 / 2], [0, 0] ]"
    by (simp_all add: example_defs setup_ext_pe_FRIED_def param_ext_pe_FRIED_def
          np_mul_grids Let_def)
  from setup_ext_pe_FRIED_initial_values [OF ret] g s d
  have "grid_r (projr example_setup) = [1, 2]
      \<and> map_option val (get_rTrunc (projr example_setup)) = Some 2
      \<and> map_option val (get_rLim_in (projr example_setup)) = Some 2
      \<and> map_option val (get_MassLoss (projr example_setup)) = Some [0, 0]
      \<and> map_option val (gas_S_EPE (projr example_setup)) = Some [0, 0]
      \<and> map_option val (dust_S_EPE (projr example_setup)) = Some [ [0, 0], [0, 0] ]"
    by auto
  with example_setup_returns show ?thesis
    by blast
qed

text \<open>
  C4, as stated: when \<^verbatim>\<open>setup_ext_pe_FRIED\<close> has returned, the three updaters are
  registered to run once per update cycle. It fails on the small disk: the update
  cycle follows \<^verbatim>\<open>sim.updater\<close>, which after the setup is still the host's
  \<^verbatim>\<open>star\<close>, \<^verbatim>\<open>grid\<close>, \<^verbatim>\<open>gas\<close>, \<^verbatim>\<open>dust\<close>, and names neither the group \<^verbatim>\<open>FRIED\<close>
  nor the group \<^verbatim>\<open>EPE\<close> that holds it.
\<close>

theorem FRIED_not_in_update_cycle_counterexample:
  "example_setup = Inr (projr example_setup)
   \<and> sim_updater (projr example_setup) = [''star'', ''grid'', ''gas'', ''dust'']
   \<and> ''FRIED'' \<notin> set (sim_updater (projr example_setup))
   \<and> ''EPE'' \<notin> set (sim_updater (projr example_setup))"
  by (simp add: example_defs setup_ext_pe_FRIED_def param_ext_pe_FRIED_def np_mul_grids
        Let_def)

text \<open>
  C4, amended: when \<^verbatim>\<open>setup_ext_pe_FRIED\<close> has returned, the update order of the
  group \<^verbatim>\<open>sim.EPE.FRIED\<close> is \<^verbatim>\<open>rLim_in\<close>, \<^verbatim>\<open>rTrunc\<close>, \<^verbatim>\<open>MassLoss\<close>, and the updaters
  of these fields are \<^verbatim>\<open>LimitInRadius\<close>, \<^verbatim>\<open>TruncationRadius\<close> and \<^verbatim>\<open>MassLoss_FRIED\<close>.
  Each update of that group therefore calls each of them once, in this order, each on
  the object as the one before has left it, and stops at the first that raises. The
  update order \<^verbatim>\<open>sim.updater\<close> of the object itself is left as it was: the setup
  does not enter the group in the update cycle.
\<close>

theorem FRIED_update_order:
  assumes "setup_ext_pe_FRIED M_sun fns sim fried_dir fried_filenames SigmaFloor = Inr sim'"
  shows "get_FRIED_updater sim' = [''rLim_in'', ''rTrunc'', ''MassLoss'']
       \<and> Option.bind (get_rLim_in sim') updater = Some Fn_LimitInRadius
       \<and> Option.bind (get_rTrunc sim') updater = Some Fn_TruncationRadius
       \<and> Option.bind (get_MassLoss sim') updater = Some Fn_MassLoss_FRIED
       \<and> update_FRIED fns sim' =
           (case LimitInRadius fns sim' of
              Inl e \<Rightarrow> Inl e
            | Inr a \<Rightarrow>
                (case TruncationRadius fns (set_rLim_in a sim') of
                   Inl e \<Rightarrow> Inl e
                 | Inr b \<Rightarrow>
                     (case MassLoss_FRIED fns (set_rTrunc b (set_rLim_in a sim')) of
                        Inl e \<Rightarrow> Inl e
                      | Inr c \<Rightarrow>
                          Inr (set_MassLoss c (set_rTrunc b (set_rLim_in a sim'))))))
       \<and> sim_updater sim' = sim_updater sim"
proof -
  from assms have top: "sim_updater sim' = sim_updater sim"
    by (auto simp: setup_ext_pe_FRIED_def np_mul_grids Let_def
        split: option.splits sum.splits if_splits prod.splits)
  from assms have reg:
    "EPE sim' \<noteq> None"
    "get_FRIED_updater sim' = [''rLim_in'', ''rTrunc'', ''MassLoss'']"
    "\<exists>f. get_rLim_in sim' = Some f \<and> updater f = Some Fn_LimitInRadius"
    "\<exists>f. get_rTrunc sim' = Some f \<and> updater f = Some Fn_TruncationRadius"
    "\<exists>f. get_MassLoss sim' = Some f \<and> updater f = Some Fn_MassLoss_FRIED"
    by (auto simp: setup_ext_pe_FRIED_def np_mul_grids Let_def addfield_def access_defs
        split: option.splits sum.splits if_splits prod.splits)
  have step1: "update_rLim_in fns sim' =
      (case LimitInRadius fns sim' of Inl e \<Rightarrow> Inl e | Inr a \<Rightarrow> Inr (set_rLim_in a sim'))"
    using reg(3) by (auto simp: update_rLim_in_def call_updater_scalar_def)
  have step2: "update_rTrunc fns (set_rLim_in a sim') =
      (case TruncationRadius fns (set_rLim_in a sim') of
         Inl e \<Rightarrow> Inl e
       | Inr b \<Rightarrow> Inr (set_rTrunc b (set_rLim_in a sim')))" for a
    using reg(4) by (auto simp: update_rTrunc_def call_updater_scalar_def after_set_rLim_in)
  have step3: "update_MassLoss fns (set_rTrunc b (set_rLim_in a sim')) =
      (case MassLoss_FRIED fns (set_rTrunc b (set_rLim_in a sim')) of
         Inl e \<Rightarrow> Inl e
       | Inr c \<Rightarrow> Inr (set_MassLoss c (set_rTrunc b (set_rLim_in a sim'))))" for a b
    using reg(5)
    by (auto simp: update_MassLoss_def call_updater_array_def after_set_rLim_in
          after_set_rTrunc)
  have "update_FRIED fns sim' =
      update_names (update_FRIED_field fns) [''rLim_in'', ''rTrunc'', ''MassLoss''] sim'"
    using reg(1) reg(2) by (auto simp: update_FRIED_def get_FRIED_updater_def)
  also have "\<dots> =
      (case LimitInRadius fns sim' of
         Inl e \<Rightarrow> Inl e
       | Inr a \<Rightarrow>
           (case TruncationRadius fns (set_rLim_in a sim') of
              Inl e \<Rightarrow> Inl e
            | Inr b \<Rightarrow>
                (case MassLoss_FRIED fns (set_rTrunc b (set_rLim_in a sim')) of
                   Inl e \<Rightarrow> Inl e
                 | Inr c \<Rightarrow>
                     Inr (set_MassLoss c (set_rTrunc b (set_rLim_in a sim'))))))"
    by (simp add: update_FRIED_field_def step1 step2 step3 split: sum.splits)
  finally have run: "update_FRIED fns sim' =
      (case LimitInRadius fns sim' of
         Inl e \<Rightarrow> Inl e
       | Inr a \<Rightarrow>
           (case TruncationRadius fns (set_rLim_in a sim') of
              Inl e \<Rightarrow> Inl e
            | Inr b \<Rightarrow>
                (case MassLoss_FRIED fns (set_rTrunc b (set_rLim_in a sim')) of
                   Inl e \<Rightarrow> Inl e
                 | Inr c \<Rightarrow>
                     Inr (set_MassLoss c (set_rTrunc b (set_rLim_in a sim'))))))" .
  from reg(3) have u1: "Option.bind (get_rLim_in sim') updater = Some Fn_LimitInRadius"
    by auto
  from reg(4) have u2: "Option.bind (get_rTrunc sim') updater = Some Fn_TruncationRadius"
    by auto
  from reg(5) have u3: "Option.bind (get_MassLoss sim') updater = Some Fn_MassLoss_FRIED"
    by auto
  from reg(2) u1 u2 u3 run top show ?thesis
    by (intro conjI)
qed

theorem FRIED_update_order_witness:
  "example_setup = Inr (projr example_setup)
   \<and> get_FRIED_updater (projr example_setup) = [''rLim_in'', ''rTrunc'', ''MassLoss'']
   \<and> Option.bind (get_rLim_in (projr example_setup)) updater = Some Fn_LimitInRadius
   \<and> Option.bind (get_rTrunc (projr example_setup)) updater = Some Fn_TruncationRadius
   \<and> Option.bind (get_MassLoss (projr example_setup)) updater = Some Fn_MassLoss_FRIED
   \<and> update_FRIED example_functions (projr example_setup)
       = Inr (set_MassLoss [1, 1] (set_rTrunc 2 (set_rLim_in 1 (projr example_setup))))"
proof -
  have ret: "setup_ext_pe_FRIED example_M_sun example_functions
               (param_ext_pe_FRIED example_sim default_UV_Flux)
               ''FRIEDV2/'' default_fried_filenames default_SigmaFloor
             = Inr (projr example_setup)"
    using example_setup_returns unfolding example_setup_def .
  have g: "grid_r (projr example_setup) = [1, 2]"
    by (simp add: example_defs setup_ext_pe_FRIED_def param_ext_pe_FRIED_def
          np_mul_grids Let_def)
  have g1: "grid_r (set_rLim_in a s) = grid_r s" for a s
    by (simp add: set_rLim_in_def)
  have g2: "grid_r (set_rTrunc a s) = grid_r s" for a s
    by (simp add: set_rTrunc_def)
  have f: "LimitInRadius example_functions s =
             (if grid_r s = [] then Inl IndexError else Inr (hd (grid_r s)))"
    "TruncationRadius example_functions s =
             (if grid_r s = [] then Inl IndexError else Inr (last (grid_r s)))"
    "MassLoss_FRIED example_functions s = Inr (replicate (length (grid_r s)) 1)" for s
    by (simp_all add: example_functions_def)
  from FRIED_update_order [OF ret]
  have "get_FRIED_updater (projr example_setup) = [''rLim_in'', ''rTrunc'', ''MassLoss'']
      \<and> Option.bind (get_rLim_in (projr example_setup)) updater = Some Fn_LimitInRadius
      \<and> Option.bind (get_rTrunc (projr example_setup)) updater = Some Fn_TruncationRadius
      \<and> Option.bind (get_MassLoss (projr example_setup)) updater = Some Fn_MassLoss_FRIED
      \<and> update_FRIED example_functions (projr example_setup)
          = Inr (set_MassLoss [1, 1] (set_rTrunc 2 (set_rLim_in 1 (projr example_setup))))"
    by (simp add: f g g1 g2)
  with example_setup_returns show ?thesis
    by blast
qed


text \<open>
  C6. \<^verbatim>\<open>setup_ext_pe_FRIED\<close> builds the resampled table and the interpolator by its one
  call of \<^verbatim>\<open>get_MassLoss_ResampleGrid\<close>, which receives the stellar mass in solar masses
  and the UV flux: the table stored in \<^verbatim>\<open>sim.EPE.FRIED.Table\<close> and the stored
  interpolator are the pair this call returns, on the grids of the setup. The
  interpolator takes a radius and a surface density only. No later action of a run
  changes either: not an update of the group \<^verbatim>\<open>FRIED\<close> or \<^verbatim>\<open>lostdust\<close>, not an
  integration step, and \<^verbatim>\<open>setup_lostdust\<close>, where it does not raise on the update
  order, hands them unchanged to the host's update.
\<close>

theorem FRIED_table_built_at_setup:
  assumes ret: "setup_ext_pe_FRIED M_sun fns sim fried_dir fried_filenames SigmaFloor
                  = Inr sim1"
    and run: "run fns actions sim1 = Inr sim2"
  shows "(\<exists>epe g i. EPE sim = Some epe
            \<and> get_MassLoss_ResampleGrid fns fried_dir fried_filenames
                (star_M sim / M_sun) (val (UV_Flux (FRIED epe)))
                grid_radii grid_Sigma (map2 (*) grid_Sigma grid_radii) = Inr (g, i)
            \<and> map_option (\<lambda>t. val (Table_radii t)) (get_Table sim1) = Some grid_radii
            \<and> map_option (\<lambda>t. val (Table_Sigma t)) (get_Table sim1) = Some grid_Sigma
            \<and> map_option (\<lambda>t. val (Table_MassLoss t)) (get_Table sim1) = Some g
            \<and> get_Interpolator sim1 = Some i)
       \<and> get_Table sim2 = get_Table sim1
       \<and> get_Interpolator sim2 = get_Interpolator sim1
       \<and> (setup_lostdust update sim1 using_FRIED = Inl (RuntimeError ''FRIED'')
          \<or> (\<exists>s6. setup_lostdust update sim1 using_FRIED = update s6
                \<and> get_Table s6 = get_Table sim1
                \<and> get_Interpolator s6 = get_Interpolator sim1))"
proof -
  from ret have built:
    "\<exists>epe g i. EPE sim = Some epe
       \<and> get_MassLoss_ResampleGrid fns fried_dir fried_filenames
           (star_M sim / M_sun) (val (UV_Flux (FRIED epe)))
           grid_radii grid_Sigma (map2 (*) grid_Sigma grid_radii) = Inr (g, i)
       \<and> map_option (\<lambda>t. val (Table_radii t)) (get_Table sim1) = Some grid_radii
       \<and> map_option (\<lambda>t. val (Table_Sigma t)) (get_Table sim1) = Some grid_Sigma
       \<and> map_option (\<lambda>t. val (Table_MassLoss t)) (get_Table sim1) = Some g
       \<and> get_Interpolator sim1 = Some i"
    by (auto simp: setup_ext_pe_FRIED_def np_mul_grids Let_def addfield_def access_defs
        split: option.splits sum.splits if_splits prod.splits)
  from run_artifacts [OF run]
  have kept: "get_Table sim2 = get_Table sim1" "get_Interpolator sim2 = get_Interpolator sim1"
    by simp_all
  have handed: "setup_lostdust update sim1 using_FRIED = Inl (RuntimeError ''FRIED'')
      \<or> (\<exists>s6. setup_lostdust update sim1 using_FRIED = update s6
            \<and> get_Table s6 = get_Table sim1
            \<and> get_Interpolator s6 = get_Interpolator sim1)"
    using setup_lostdust_shape [of update sim1 using_FRIED] by blast
  from built kept handed show ?thesis
    by (intro conjI)
qed

theorem FRIED_table_built_at_setup_witness:
  "example_setup_lost = Inr example_ready
   \<and> example_run = Inr (projr example_run)
   \<and> map_option (\<lambda>t. val (Table_radii t)) (get_Table example_ready) = Some grid_radii
   \<and> map_option (\<lambda>t. val (Table_Sigma t)) (get_Table example_ready) = Some grid_Sigma
   \<and> get_Table (projr example_run) = get_Table example_ready
   \<and> get_Interpolator (projr example_run) = get_Interpolator example_ready"
proof -
  have ret: "setup_ext_pe_FRIED example_M_sun example_functions
               (param_ext_pe_FRIED example_lost default_UV_Flux)
               ''FRIEDV2/'' default_fried_filenames default_SigmaFloor
             = Inr example_ready"
    using example_setup_lost_returns unfolding example_setup_lost_def .
  have run: "run example_functions example_actions example_ready = Inr (projr example_run)"
    using example_run_returns unfolding example_run_def .
  from FRIED_table_built_at_setup [OF ret run]
  have "map_option (\<lambda>t. val (Table_radii t)) (get_Table example_ready) = Some grid_radii
      \<and> map_option (\<lambda>t. val (Table_Sigma t)) (get_Table example_ready) = Some grid_Sigma
      \<and> get_Table (projr example_run) = get_Table example_ready
      \<and> get_Interpolator (projr example_run) = get_Interpolator example_ready"
    by blast
  with example_setup_lost_returns example_run_returns show ?thesis
    by blast
qed

section \<open>What the registered functions write\<close>

text \<open>
  C7. A call of \<^verbatim>\<open>dSigma_lostdust\<close> or of \<^verbatim>\<open>M_lostdust\<close> leaves the simulation
  object as it is. An update of \<^verbatim>\<open>lostdust.M\<close>, \<^verbatim>\<open>rLim_in\<close>, \<^verbatim>\<open>rTrunc\<close> or
  \<^verbatim>\<open>MassLoss\<close> through its registered updater changes at most the value of that field:
  the object before and the object after are equal once that value is overwritten in
  both. The three updaters of \<^verbatim>\<open>functions_ext_pe\<close> enter as functions of the object that
  return a value.
\<close>

theorem registered_functions_frame:
  "snd (call_dSigma_lostdust sim x Y) = sim
   \<and> snd (call_M_lostdust sim) = sim
   \<and> (update_lostdust_M fns sim = Inr s_M
        \<longrightarrow> set_lostdust_M 0 s_M = set_lostdust_M 0 sim)
   \<and> (update_rLim_in fns sim = Inr s_rLim
        \<longrightarrow> set_rLim_in 0 s_rLim = set_rLim_in 0 sim)
   \<and> (update_rTrunc fns sim = Inr s_rTrunc
        \<longrightarrow> set_rTrunc 0 s_rTrunc = set_rTrunc 0 sim)
   \<and> (update_MassLoss fns sim = Inr s_MassLoss
        \<longrightarrow> set_MassLoss [] s_MassLoss = set_MassLoss [] sim)"
  by (auto simp: call_dSigma_lostdust_def call_M_lostdust_def update_lostdust_M_def
        update_rLim_in_def update_rTrunc_def update_MassLoss_def set_twice
      split: option.splits sum.splits)

theorem registered_functions_frame_witness:
  "snd (call_dSigma_lostdust example_ready () ()) = example_ready
   \<and> snd (call_M_lostdust example_ready) = example_ready
   \<and> update_lostdust_M example_functions example_ready = Inr (set_lostdust_M 72 example_ready)
   \<and> set_lostdust_M 0 (set_lostdust_M 72 example_ready) = set_lostdust_M 0 example_ready
   \<and> update_rLim_in example_functions example_ready = Inr (set_rLim_in 1 example_ready)
   \<and> set_rLim_in 0 (set_rLim_in 1 example_ready) = set_rLim_in 0 example_ready
   \<and> update_rTrunc example_functions example_ready = Inr (set_rTrunc 2 example_ready)
   \<and> set_rTrunc 0 (set_rTrunc 2 example_ready) = set_rTrunc 0 example_ready
   \<and> update_MassLoss example_functions example_ready
       = Inr (set_MassLoss [1, 1] example_ready)
   \<and> set_MassLoss [] (set_MassLoss [1, 1] example_ready) = set_MassLoss [] example_ready"
proof -
  have m: "update_lostdust_M example_functions example_ready
             = Inr (set_lostdust_M 72 example_ready)"
    by (simp add: example_defs setup_ext_pe_FRIED_def param_ext_pe_FRIED_def np_mul_grids
          Let_def host_defs M_lostdust_def np_mul_same addfield_def access_defs)
  have l: "update_rLim_in example_functions example_ready
             = Inr (set_rLim_in 1 example_ready)"
    by (simp add: example_defs setup_ext_pe_FRIED_def param_ext_pe_FRIED_def np_mul_grids
          Let_def host_defs addfield_def access_defs)
  have t: "update_rTrunc example_functions example_ready
             = Inr (set_rTrunc 2 example_ready)"
    by (simp add: example_defs setup_ext_pe_FRIED_def param_ext_pe_FRIED_def np_mul_grids
          Let_def host_defs addfield_def access_defs)
  have f: "update_MassLoss example_functions example_ready
             = Inr (set_MassLoss [1, 1] example_ready)"
    by (simp add: example_defs setup_ext_pe_FRIED_def param_ext_pe_FRIED_def np_mul_grids
          Let_def host_defs addfield_def access_defs)
  from registered_functions_frame [where sim = example_ready and fns = example_functions
      and x = "()" and Y = "()"
      and s_M = "set_lostdust_M 72 example_ready"
      and s_rLim = "set_rLim_in 1 example_ready"
      and s_rTrunc = "set_rTrunc 2 example_ready"
      and s_MassLoss = "set_MassLoss [1, 1] example_ready"]
    m l t f
  show ?thesis
    by blast
qed

end
